theory Spec2Isabelle
  imports Complex_Main
begin

section \<open>The reward history of the staking dashboard\<close>

text \<open>
  A shallow embedding of the class \<open>RewardHistory\<close> (the second module of
  \<open>src/utils/format.ts\<close>, imported elsewhere as \<open>./rewardHistory\<close>).

  Conventions of the embedding.
  \<^item> Amounts. The class keeps amounts as decimal strings of wei and computes on them with
    the \<open>BigNumber\<close> type of the ethers library. An amount is modelled as the \<open>int\<close> that
    the string denotes. The argument of \<open>update\<close> and \<open>setInitialAmount\<close> is the value of
    \<open>toWeiString(amount)\<close> read as a \<open>BigNumber\<close>, for an argument that \<open>parseEther\<close>
    accepts: \<open>toWeiString\<close> scales such an argument by \<open>10^18\<close>, and \<open>formatEther\<close> scales
    back for display. Arguments that are not numbers (on which \<open>BigNumber.from\<close> throws)
    are outside the embedding.
  \<^item> Time. Every call of \<open>Date.now()\<close> is a parameter of the operation that makes it, in
    the order in which the source makes them. Timestamps are milliseconds, as \<open>int\<close>.
  \<^item> Display numbers. \<open>parseFloat(utils.formatEther(v))\<close> is modelled as the exact rational
    \<open>v / 10^18\<close>, and the floating-point quotient of two millisecond counts as their exact
    rational quotient; the rounding to a double is not modelled. The \<open>formatted\<close> strings
    of the statistics are left out.
\<close>

subsection \<open>Data\<close>

record RewardPoint =
  timestamp :: int
  amount :: int

record RateStats =
  perMinute :: rat
  perHour :: rat
  perDay :: rat

record RewardStats =
  sessionTotal :: rat
  sessionDurationMinutes :: rat
  sessionPerMinute :: rat
  currentRate :: RateStats

record RewardHistory =
  history :: "RewardPoint list"
  lastAmount :: int
  initialAmount :: "int option"
  startTime :: int
  initialized :: bool

definition windowMs :: int where
  "windowMs = 5 * 60 * 1000"

text \<open>The field initialisers of the class; \<open>t\<close> is the \<open>Date.now()\<close> of \<open>startTime\<close>.\<close>

definition RewardHistory_new :: "int \<Rightarrow> RewardHistory" where
  "RewardHistory_new t =
     \<lparr>history = [], lastAmount = 0, initialAmount = None, startTime = t, initialized = False\<rparr>"

subsection \<open>The ethers library, as far as the class uses it\<close>

text \<open>\<open>BigNumber.div\<close> is the division of BN.js, which truncates towards zero.\<close>

definition BigNumber_div :: "int \<Rightarrow> int \<Rightarrow> int" where
  "BigNumber_div a b = sgn a * sgn b * (\<bar>a\<bar> div \<bar>b\<bar>)"

text \<open>\<open>parseFloat(utils.formatEther(v))\<close>: wei to display units.\<close>

definition formatEther :: "int \<Rightarrow> rat" where
  "formatEther v = of_int v / 10 ^ 18"

text \<open>\<open>this.toWeiString('0.0001')\<close>, that is \<open>parseEther('0.0001')\<close>.\<close>

definition toWeiString_0_0001 :: int where
  "toWeiString_0_0001 = 10 ^ 14"

subsection \<open>Operations\<close>

definition cleanup :: "int \<Rightarrow> RewardHistory \<Rightarrow> RewardHistory" where
  "cleanup tNow s =
     (let cutoff = tNow - windowMs
      in s\<lparr>history := filter (\<lambda>point. timestamp point \<ge> cutoff) (history s)\<rparr>)"

text \<open>The loop of \<open>initialize\<close>: \<open>for (let i = n; i >= 0; i--) push\<close>.\<close>

fun initialize_loop :: "int \<Rightarrow> nat \<Rightarrow> RewardPoint list \<Rightarrow> RewardPoint list" where
  "initialize_loop now 0 h =
     h @ [\<lparr>timestamp = now - 0 * 60 * 1000, amount = toWeiString_0_0001\<rparr>]"
| "initialize_loop now (Suc i) h =
     initialize_loop now i
       (h @ [\<lparr>timestamp = now - int (Suc i) * 60 * 1000, amount = toWeiString_0_0001\<rparr>])"

definition initialize :: "int \<Rightarrow> RewardHistory \<Rightarrow> RewardHistory" where
  "initialize tNow s =
     (if initialized s then s
      else s\<lparr>history := initialize_loop tNow 4 (history s), initialized := True\<rparr>)"

text \<open>
  \<open>update\<close>: \<open>tNow\<close> is \<open>currentTime\<close>, \<open>tCleanup\<close> the clock read by the final \<open>cleanup\<close>.
  The two early returns leave before the \<open>cleanup\<close>. The stored \<open>lastAmount\<close> is never
  the empty string, so \<open>this.lastAmount || '0'\<close> is \<open>lastAmount\<close>.
\<close>

definition update :: "int \<Rightarrow> int \<Rightarrow> int \<Rightarrow> RewardHistory \<Rightarrow> RewardHistory" where
  "update tNow tCleanup currentWei s =
     (if \<not> initialized s then
        s\<lparr>initialAmount := Some currentWei, lastAmount := currentWei, startTime := tNow,
          initialized := True,
          history := history s @ [\<lparr>timestamp = tNow, amount = 0\<rparr>]\<rparr>
      else
        let lastWei = lastAmount s in
        if currentWei < lastWei then
          s\<lparr>history := [\<lparr>timestamp = tNow, amount = 0\<rparr>], lastAmount := currentWei,
            initialAmount := Some currentWei, startTime := tNow\<rparr>
        else
          let difference = currentWei - lastWei;
              newPoint = \<lparr>timestamp = tNow, amount = difference\<rparr>
          in cleanup tCleanup
               (if difference > 0 then
                  s\<lparr>history := history s @ [newPoint], lastAmount := currentWei\<rparr>
                else if length (history s) > 0 then
                  s\<lparr>history := (history s)
                       [length (history s) - 1 :=
                          (history s ! (length (history s) - 1))\<lparr>timestamp := tNow\<rparr>]\<rparr>
                else
                  s\<lparr>history := history s @ [newPoint]\<rparr>))"

text \<open>
  \<open>getStats\<close>: \<open>tCleanup\<close> and \<open>tInit\<close> are the clocks read by \<open>cleanup\<close> and \<open>initialize\<close>,
  \<open>tNow\<close> is the constant \<open>now\<close>. The result is the statistics and the accumulator after
  the call. A stored amount is a string of digits, which JavaScript takes as true, so the
  test \<open>this.initialAmount && this.lastAmount\<close> is whether \<open>initialAmount\<close> is not
  \<open>null\<close>.
\<close>

definition getStats :: "int \<Rightarrow> int \<Rightarrow> int \<Rightarrow> RewardHistory \<Rightarrow> RewardStats \<times> RewardHistory" where
  "getStats tCleanup tInit tNow s0 =
     (let s = initialize tInit (cleanup tCleanup s0);
          fiveMinutesAgo = tNow - windowMs;
          sessionDurationMs = tNow - startTime s;
          sessionDurationMinutes' = max 1 (of_int sessionDurationMs / (60 * 1000));
          recentPoints = filter (\<lambda>p. timestamp p \<ge> fiveMinutesAgo) (history s);
          totalRewards = foldl (\<lambda>sum point. sum + amount point) 0 recentPoints;
          sessionTotal' =
            (case initialAmount s of
               None \<Rightarrow> 0
             | Some initialWei \<Rightarrow>
                 (let d = lastAmount s - initialWei in if d > 0 then d else 0));
          minutesInWindow = 5;
          perMinute' = BigNumber_div totalRewards minutesInWindow;
          sessionPerMinute' =
            (if sessionDurationMs > 0
             then BigNumber_div (sessionTotal' * 60000) sessionDurationMs else 0);
          perHour' = perMinute' * 60;
          perDay' = perHour' * 24
      in (\<lparr>sessionTotal = formatEther sessionTotal',
           sessionDurationMinutes = sessionDurationMinutes',
           sessionPerMinute = formatEther sessionPerMinute',
           currentRate =
             \<lparr>perMinute = formatEther perMinute',
              perHour = formatEther perHour',
              perDay = formatEther perDay'\<rparr>\<rparr>,
          s))"

definition reset :: "int \<Rightarrow> RewardHistory \<Rightarrow> RewardHistory" where
  "reset tNow s =
     s\<lparr>history := [], lastAmount := 0, initialAmount := None, startTime := tNow,
       initialized := False\<rparr>"

definition setInitialAmount :: "int \<Rightarrow> int \<Rightarrow> RewardHistory \<Rightarrow> RewardHistory" where
  "setInitialAmount tNow weiAmount s =
     s\<lparr>initialAmount := Some weiAmount, lastAmount := weiAmount, startTime := tNow,
       initialized := True\<rparr>"


subsection \<open>Sequences of calls\<close>

text \<open>
  A call of a public method with the clock values it reads, and the effect of a
  sequence of calls on the accumulator.
\<close>

datatype call =
    Update int int int
  | GetStats int int int
  | Reset int
  | SetInitialAmount int int

fun exec :: "call \<Rightarrow> RewardHistory \<Rightarrow> RewardHistory" where
  "exec (Update tNow tCleanup currentWei) s = update tNow tCleanup currentWei s"
| "exec (GetStats tCleanup tInit tNow) s = snd (getStats tCleanup tInit tNow s)"
| "exec (Reset tNow) s = reset tNow s"
| "exec (SetInitialAmount tNow weiAmount) s = setInitialAmount tNow weiAmount s"

fun run :: "call list \<Rightarrow> RewardHistory \<Rightarrow> RewardHistory" where
  "run [] s = s"
| "run (c # cs) s = run cs (exec c s)"

text \<open>The clock values of a call, in the order in which the call reads them.\<close>

fun clock :: "call \<Rightarrow> int list" where
  "clock (Update tNow tCleanup currentWei) = [tNow, tCleanup]"
| "clock (GetStats tCleanup tInit tNow) = [tCleanup, tInit, tNow]"
| "clock (Reset tNow) = [tNow]"
| "clock (SetInitialAmount tNow weiAmount) = [tNow]"

text \<open>The amounts passed to \<open>update\<close> by a sequence of calls.\<close>

fun cumulatives :: "call list \<Rightarrow> int list" where
  "cumulatives [] = []"
| "cumulatives (Update tNow tCleanup currentWei # cs) = currentWei # cumulatives cs"
| "cumulatives (c # cs) = cumulatives cs"

fun isUpdate :: "call \<Rightarrow> bool" where
  "isUpdate (Update tNow tCleanup currentWei) = True"
| "isUpdate c = False"

fun isGetStats :: "call \<Rightarrow> bool" where
  "isGetStats (GetStats tCleanup tInit tNow) = True"
| "isGetStats c = False"

text \<open>
  The state of an accumulator as the calls leave it when the clock never runs backwards:
  the samples are in the order of their times, none is later than the clock value \<open>t\<close>,
  and an accumulator that is not initialized has no samples.
\<close>

definition wellformed :: "int \<Rightarrow> RewardHistory \<Rightarrow> bool" where
  "wellformed t s \<longleftrightarrow>
     sorted (map timestamp (history s)) \<and> list_all (\<lambda>p. timestamp p \<le> t) (history s)
     \<and> (initialized s \<or> history s = [])"

section \<open>Basic facts\<close>

lemma foldl_amount: "foldl (\<lambda>sum point. sum + amount point) a ps = a + sum_list (map amount ps)"
  by (induction ps arbitrary: a) simp_all

lemma BigNumber_div_nonneg: "0 \<le> a \<Longrightarrow> 0 < b \<Longrightarrow> BigNumber_div a b = a div b"
  by (cases "a = 0") (simp_all add: BigNumber_div_def)

lemma cleanup_fields [simp]:
  "lastAmount (cleanup t s) = lastAmount s"
  "initialAmount (cleanup t s) = initialAmount s"
  "startTime (cleanup t s) = startTime s"
  "initialized (cleanup t s) = initialized s"
  "history (cleanup t s) = filter (\<lambda>p. t - windowMs \<le> timestamp p) (history s)"
  by (simp_all add: cleanup_def)

lemma initialize_fields [simp]:
  "lastAmount (initialize t s) = lastAmount s"
  "initialAmount (initialize t s) = initialAmount s"
  "startTime (initialize t s) = startTime s"
  "initialized (initialize t s)"
  by (simp_all add: initialize_def)

lemma initialize_initialized [simp]: "initialized s \<Longrightarrow> initialize t s = s"
  by (simp add: initialize_def)

lemma getStats_snd: "snd (getStats t1 t2 t3 s) = initialize t2 (cleanup t1 s)"
  by (simp add: getStats_def Let_def)

text \<open>The session total in wei, as \<open>getStats\<close> computes it from the two stored amounts.\<close>

lemma getStats_sessionTotal:
  "sessionTotal (fst (getStats t1 t2 t3 s)) =
     formatEther (case initialAmount s of None \<Rightarrow> 0 | Some i \<Rightarrow> max 0 (lastAmount s - i))"
  by (simp add: getStats_def Let_def max_def split: option.splits)

lemma getStats_fields [simp]:
  "lastAmount (snd (getStats t1 t2 t3 s)) = lastAmount s"
  "initialAmount (snd (getStats t1 t2 t3 s)) = initialAmount s"
  "startTime (snd (getStats t1 t2 t3 s)) = startTime s"
  "initialized (snd (getStats t1 t2 t3 s))"
  by (simp_all add: getStats_snd)

lemma update_lastAmount [simp]: "lastAmount (update tNow tCleanup c s) = c"
  by (simp add: update_def Let_def)

lemma update_initialized [simp]: "initialized (update tNow tCleanup c s)"
  by (simp add: update_def Let_def)

lemma formatEther_0 [simp]: "formatEther 0 = 0"
  by (simp add: formatEther_def)

lemma list_update_last:
  "h \<noteq> [] \<Longrightarrow> h[length h - 1 := f (h ! (length h - 1))] = butlast h @ [f (last h)]"
  by (induction h rule: rev_induct) (simp_all add: nth_append)


lemma initialize_loop_append:
  "initialize_loop now n h =
     h @ map (\<lambda>i. \<lparr>timestamp = now - int i * 60 * 1000, amount = toWeiString_0_0001\<rparr>)
           (rev [0..<Suc n])"
  by (induction n arbitrary: h) simp_all

lemma initialize_loop_4:
  "initialize_loop now 4 h =
     h @ [\<lparr>timestamp = now - 240000, amount = toWeiString_0_0001\<rparr>,
          \<lparr>timestamp = now - 180000, amount = toWeiString_0_0001\<rparr>,
          \<lparr>timestamp = now - 120000, amount = toWeiString_0_0001\<rparr>,
          \<lparr>timestamp = now - 60000, amount = toWeiString_0_0001\<rparr>,
          \<lparr>timestamp = now, amount = toWeiString_0_0001\<rparr>]"
  by (simp add: eval_nat_numeral)

lemma filter_window_twice:
  "u \<le> t \<Longrightarrow>
   filter (\<lambda>p. t - windowMs \<le> timestamp p) (filter (\<lambda>p. u - windowMs \<le> timestamp p) h)
     = filter (\<lambda>p. t - windowMs \<le> timestamp p) h"
  by (induction h) auto

lemma filter_window_weaker:
  "t \<le> u \<Longrightarrow>
   filter (\<lambda>p. t - windowMs \<le> timestamp p) (filter (\<lambda>p. u - windowMs \<le> timestamp p) h)
     = filter (\<lambda>p. u - windowMs \<le> timestamp p) h"
  by (induction h) auto

lemma formatEther_mult: "formatEther (v * k) = formatEther v * of_int k"
  by (simp add: formatEther_def)

lemma update_nondecreasing:
  "initialized s \<Longrightarrow> lastAmount s \<le> c \<Longrightarrow>
   initialAmount (update tNow tCleanup c s) = initialAmount s"
  by (simp add: update_def Let_def)

lemma run_append: "run (cs @ ds) s = run ds (run cs s)"
  by (induction cs arbitrary: s) simp_all

text \<open>
  Calls of \<open>update\<close> with amounts that do not decrease, mixed with calls of \<open>getStats\<close>,
  keep the initial amount of an initialized accumulator and end with the last amount
  passed.
\<close>

lemma run_nondecreasing:
  assumes "initialized s"
    and "\<forall>c \<in> set cs. isUpdate c \<or> isGetStats c"
    and "sorted (lastAmount s # cumulatives cs)"
  shows "initialized (run cs s) \<and> initialAmount (run cs s) = initialAmount s
       \<and> lastAmount (run cs s) = last (lastAmount s # cumulatives cs)"
  using assms
proof (induction cs arbitrary: s)
  case Nil
  then show ?case by simp
next
  case (Cons c cs)
  show ?case
  proof (cases c)
    case (Update tNow tCleanup v)
    let ?s = "update tNow tCleanup v s"
    have le: "lastAmount s \<le> v" and sorted: "sorted (lastAmount ?s # cumulatives cs)"
      using Cons.prems(3) Update by simp_all
    have "initialized ?s" "initialAmount ?s = initialAmount s"
      using Cons.prems(1) le by (simp_all add: update_nondecreasing)
    moreover have "\<forall>c \<in> set cs. isUpdate c \<or> isGetStats c"
      using Cons.prems(2) by simp
    ultimately show ?thesis
      using Cons.IH [of ?s] sorted Update by simp
  next
    case (GetStats t1 t2 t3)
    let ?s = "snd (getStats t1 t2 t3 s)"
    have "sorted (lastAmount ?s # cumulatives cs)"
      using Cons.prems(3) GetStats by simp
    moreover have "\<forall>c \<in> set cs. isUpdate c \<or> isGetStats c"
      using Cons.prems(2) by simp
    ultimately show ?thesis
      using Cons.IH [of ?s] GetStats by simp
  next
    case (Reset t)
    then show ?thesis using Cons.prems(2) by simp
  next
    case (SetInitialAmount t v)
    then show ?thesis using Cons.prems(2) by simp
  qed
qed


subsection \<open>The history under a clock that does not run backwards\<close>

lemma wellformed_new: "wellformed t (RewardHistory_new t0)"
  by (simp add: wellformed_def RewardHistory_new_def)

lemma wellformed_mono: "wellformed t s \<Longrightarrow> t \<le> u \<Longrightarrow> wellformed u s"
  by (auto simp: wellformed_def list_all_iff)

lemma wellformed_cleanup:
  assumes "sorted (map timestamp h)" and "\<forall>p \<in> set h. timestamp p \<le> u" and "initialized s"
  shows "wellformed u (cleanup tCleanup (s\<lparr>history := h\<rparr>))"
  using assms by (simp add: wellformed_def list_all_iff sorted_filter)

lemma sorted_retimed:
  assumes "sorted (map timestamp h)" and "\<forall>p \<in> set h. timestamp p \<le> u" and "h \<noteq> []"
  shows "sorted (map timestamp (butlast h @ [(last h)\<lparr>timestamp := u\<rparr>]))"
proof -
  have "sorted (map timestamp (butlast h))"
    using assms(1) by (simp add: map_butlast sorted_butlast)
  moreover have "\<forall>p \<in> set (butlast h). timestamp p \<le> u"
    using assms(2) by (auto dest: in_set_butlastD)
  ultimately show ?thesis
    by (simp add: sorted_append)
qed

lemma wellformed_update:
  assumes "wellformed t s" and "t \<le> tNow" and "tNow \<le> tCleanup"
  shows "wellformed tCleanup (update tNow tCleanup c s)"
proof -
  have srt: "sorted (map timestamp (history s))"
    and bound: "\<forall>p \<in> set (history s). timestamp p \<le> tNow"
    using assms(1,2) by (auto simp: wellformed_def list_all_iff)
  show ?thesis
  proof (cases "initialized s")
    case False
    then have "history s = []"
      using assms(1) by (simp add: wellformed_def)
    then show ?thesis
      using False assms(3) by (simp add: update_def wellformed_def)
  next
    case init: True
    show ?thesis
    proof (cases "c < lastAmount s")
      case True
      then show ?thesis
        using init assms(3) by (simp add: update_def wellformed_def)
    next
      case nodecrease: False
      show ?thesis
      proof (cases "0 < c - lastAmount s")
        case True
        let ?h = "history s @ [\<lparr>timestamp = tNow, amount = c - lastAmount s\<rparr>]"
        have eq: "update tNow tCleanup c s =
            cleanup tCleanup ((s\<lparr>lastAmount := c\<rparr>)\<lparr>history := ?h\<rparr>)"
          using init nodecrease True by (simp add: update_def Let_def)
        have "sorted (map timestamp ?h)" "\<forall>p \<in> set ?h. timestamp p \<le> tCleanup"
          using srt bound assms(3) by (auto simp: sorted_append)
        moreover have "initialized (s\<lparr>lastAmount := c\<rparr>)"
          using init by simp
        ultimately have "wellformed tCleanup
            (cleanup tCleanup ((s\<lparr>lastAmount := c\<rparr>)\<lparr>history := ?h\<rparr>))"
          by (rule wellformed_cleanup)
        then show ?thesis
          by (simp only: eq)
      next
        case zero: False
        show ?thesis
        proof (cases "history s = []")
          case True
          let ?h = "[\<lparr>timestamp = tNow, amount = c - lastAmount s\<rparr>]"
          have eq: "update tNow tCleanup c s = cleanup tCleanup (s\<lparr>history := ?h\<rparr>)"
            using init nodecrease zero True by (simp add: update_def Let_def)
          have "sorted (map timestamp ?h)" "\<forall>p \<in> set ?h. timestamp p \<le> tCleanup"
            using assms(3) by simp_all
          then have "wellformed tCleanup (cleanup tCleanup (s\<lparr>history := ?h\<rparr>))"
            using init by (rule wellformed_cleanup)
          then show ?thesis
            by (simp only: eq)
        next
          case False
          let ?h = "butlast (history s) @ [(last (history s))\<lparr>timestamp := tNow\<rparr>]"
          have eq: "update tNow tCleanup c s = cleanup tCleanup (s\<lparr>history := ?h\<rparr>)"
            using init nodecrease zero False
              list_update_last [of "history s" "\<lambda>p. p\<lparr>timestamp := tNow\<rparr>"]
            by (simp add: update_def Let_def)
          have "sorted (map timestamp ?h)"
            using srt bound False by (rule sorted_retimed)
          moreover have "\<forall>p \<in> set ?h. timestamp p \<le> tCleanup"
            using bound assms(3) by (force dest: in_set_butlastD)
          ultimately have "wellformed tCleanup (cleanup tCleanup (s\<lparr>history := ?h\<rparr>))"
            using init by (rule wellformed_cleanup)
          then show ?thesis
            by (simp only: eq)
        qed
      qed
    qed
  qed
qed

lemma wellformed_getStats:
  assumes "wellformed t s" and "t \<le> tInit"
  shows "wellformed tInit (snd (getStats tCleanup tInit tNow s))"
proof (cases "initialized s")
  case True
  then show ?thesis
    using assms
    by (auto simp: getStats_snd wellformed_def list_all_iff sorted_filter)
next
  case False
  then have "history s = []"
    using assms(1) by (simp add: wellformed_def)
  then show ?thesis
    using False
    by (simp add: getStats_snd initialize_def initialize_loop_4 wellformed_def)
qed

lemma wellformed_exec:
  assumes "wellformed t s" and "sorted (t # clock c)"
  shows "wellformed (last (t # clock c)) (exec c s)"
proof (cases c)
  case (Update tNow tCleanup v)
  then show ?thesis
    using assms wellformed_update [of t s tNow tCleanup v] by simp
next
  case (GetStats tCleanup tInit tNow)
  then have "wellformed tInit (exec c s)" "tInit \<le> tNow"
    using assms wellformed_getStats [of t s tInit tCleanup tNow] by simp_all
  then show ?thesis
    using GetStats by (simp add: wellformed_mono)
next
  case (Reset tNow)
  then show ?thesis
    by (simp add: reset_def wellformed_def)
next
  case (SetInitialAmount tNow v)
  then show ?thesis
    using assms by (auto simp: setInitialAmount_def wellformed_def list_all_iff)
qed

lemma wellformed_run:
  assumes "wellformed t s" and "sorted (t # concat (map clock cs))"
  shows "wellformed (last (t # concat (map clock cs))) (run cs s)"
  using assms
proof (induction cs arbitrary: t s)
  case Nil
  then show ?case by simp
next
  case (Cons c cs)
  let ?u = "last (t # clock c)"
  have clock_c: "sorted (t # clock c)"
    using Cons.prems(2) by (simp add: sorted_append)
  have step: "wellformed ?u (exec c s)"
    using Cons.prems(1) clock_c by (rule wellformed_exec)
  have "clock c \<noteq> []"
    by (cases c) simp_all
  then have u: "?u = last (clock c)" "?u \<in> set (clock c)"
    by simp_all
  have "sorted (?u # concat (map clock cs))"
    using Cons.prems(2) u(2) by (simp add: sorted_append)
  then have "wellformed (last (?u # concat (map clock cs))) (run cs (exec c s))"
    using step Cons.IH by blast
  moreover have "last (?u # concat (map clock cs)) = last (t # concat (map clock (c # cs)))"
    using \<open>clock c \<noteq> []\<close> by (simp add: u(1))
  ultimately show ?case by simp
qed

lemma update_pruned:
  assumes "wellformed t s" and "tNow \<le> tCleanup"
  shows "\<forall>p \<in> set (history (update tNow tCleanup c s)). tNow - windowMs \<le> timestamp p"
proof (cases "initialized s")
  case False
  then have "history s = []"
    using assms(1) by (simp add: wellformed_def)
  then show ?thesis
    using False by (simp add: update_def windowMs_def)
next
  case True
  then show ?thesis
    using assms(2) by (auto simp: update_def Let_def windowMs_def)
qed

lemma getStats_pruned:
  assumes "wellformed t s" and "tCleanup \<le> tInit"
  shows "\<forall>p \<in> set (history (snd (getStats tCleanup tInit tNow s))).
           tCleanup - windowMs \<le> timestamp p"
proof (cases "initialized s")
  case False
  then have "history s = []"
    using assms(1) by (simp add: wellformed_def)
  then show ?thesis
    using False assms(2)
    by (simp add: getStats_snd initialize_def initialize_loop_4 windowMs_def)
next
  case True
  then show ?thesis
    by (simp add: getStats_snd)
qed

lemma filter_remove1_stale: "\<not> P p \<Longrightarrow> filter P (remove1 p xs) = filter P xs"
  by (induction xs) auto

section \<open>First update\<close>

text \<open>
  C4. The first \<open>update\<close> of an accumulator that is not initialized stores the argument
  as the initial and as the last amount, sets the start of the session to the time of
  the call, appends exactly one zero sample with that time to the history, and does
  nothing else: the history is not pruned (the clock of \<open>cleanup\<close> plays no part) and
  no other field changes, the flag \<open>initialized\<close> apart.
\<close>

theorem update_first_call:
  assumes "\<not> initialized s"
  shows "update tNow tCleanup c s =
           s\<lparr>history := history s @ [\<lparr>timestamp = tNow, amount = 0\<rparr>],
             lastAmount := c, initialAmount := Some c, startTime := tNow,
             initialized := True\<rparr>"
  using assms by (simp add: update_def)

theorem update_first_call_witness:
  "\<not> initialized (RewardHistory_new 1000) \<and>
   update 2000 2001 100 (RewardHistory_new 1000) =
     \<lparr>history = [\<lparr>timestamp = 2000, amount = 0\<rparr>], lastAmount = 100,
      initialAmount = Some 100, startTime = 2000, initialized = True\<rparr>"
  using update_first_call [of "RewardHistory_new 1000" 2000 2001 100]
  by (simp add: RewardHistory_new_def)


section \<open>Rollback\<close>

text \<open>
  C3. When \<open>update a\<close> is followed by \<open>update b\<close> with \<open>b < a\<close>, then right after the
  second call the history is exactly one zero sample with the time of the second call,
  the initial and the last amount are both \<open>b\<close>, the session starts at the time of the
  second call, and a following \<open>getStats\<close> reports the session total 0. This holds from
  every accumulator state and for all clock values.
\<close>

theorem update_rollback:
  assumes "b < a"
  shows "history (update t2 t2' b (update t1 t1' a s)) = [\<lparr>timestamp = t2, amount = 0\<rparr>]
       \<and> initialAmount (update t2 t2' b (update t1 t1' a s)) = Some b
       \<and> lastAmount (update t2 t2' b (update t1 t1' a s)) = b
       \<and> startTime (update t2 t2' b (update t1 t1' a s)) = t2
       \<and> sessionTotal (fst (getStats u1 u2 u3 (update t2 t2' b (update t1 t1' a s)))) = 0"
proof -
  let ?s1 = "update t1 t1' a s"
  have s1: "initialized ?s1" "lastAmount ?s1 = a"
    by simp_all
  have s2: "update t2 t2' b ?s1 =
      ?s1\<lparr>history := [\<lparr>timestamp = t2, amount = 0\<rparr>], lastAmount := b,
          initialAmount := Some b, startTime := t2\<rparr>"
    using assms s1 by (simp add: update_def [of t2 t2' b] Let_def)
  show ?thesis
    unfolding getStats_sessionTotal s2 by simp
qed

theorem update_rollback_witness:
  "(50 :: int) < 100 \<and>
   history (update 2000 2001 50 (update 1000 1001 100 (RewardHistory_new 0)))
     = [\<lparr>timestamp = 2000, amount = 0\<rparr>] \<and>
   sessionTotal (fst (getStats 2002 2003 2004
     (update 2000 2001 50 (update 1000 1001 100 (RewardHistory_new 0))))) = 0"
  using update_rollback [of 50 100 2000 2001 1000 1001 "RewardHistory_new 0" 2002 2003 2004]
  by simp


section \<open>Zero difference\<close>

text \<open>
  C7. On an initialized accumulator whose last amount already is \<open>c\<close>, \<open>update c\<close> with a
  history that is not empty appends nothing: it sets the time of the most recent sample
  to the time of the call and then prunes, so the history becomes the old one with that
  one time replaced, filtered by the cutoff; where nothing is stale, the length, the
  amounts and all earlier samples are unchanged. With an empty history the call appends
  one zero sample (and prunes). In both cases no other field changes.
\<close>

theorem update_zero_difference:
  assumes "initialized s" and "lastAmount s = c"
  shows "(history s \<noteq> [] \<longrightarrow>
            history (update tNow tCleanup c s) =
              filter (\<lambda>p. tCleanup - windowMs \<le> timestamp p)
                (butlast (history s) @ [(last (history s))\<lparr>timestamp := tNow\<rparr>])
          \<and> ((\<forall>p \<in> set (butlast (history s)). tCleanup - windowMs \<le> timestamp p)
               \<and> tCleanup - windowMs \<le> tNow \<longrightarrow>
                 length (history (update tNow tCleanup c s)) = length (history s)
               \<and> map amount (history (update tNow tCleanup c s)) = map amount (history s)
               \<and> butlast (history (update tNow tCleanup c s)) = butlast (history s)
               \<and> last (history (update tNow tCleanup c s))
                   = (last (history s))\<lparr>timestamp := tNow\<rparr>))
       \<and> (history s = [] \<longrightarrow>
            history (update tNow tCleanup c s) =
              filter (\<lambda>p. tCleanup - windowMs \<le> timestamp p)
                [\<lparr>timestamp = tNow, amount = 0\<rparr>])
       \<and> lastAmount (update tNow tCleanup c s) = lastAmount s
       \<and> initialAmount (update tNow tCleanup c s) = initialAmount s
       \<and> startTime (update tNow tCleanup c s) = startTime s
       \<and> initialized (update tNow tCleanup c s)"
proof -
  let ?h = "history s"
  let ?h' = "butlast ?h @ [(last ?h)\<lparr>timestamp := tNow\<rparr>]"
  have nonempty: "history (update tNow tCleanup c s) =
      filter (\<lambda>p. tCleanup - windowMs \<le> timestamp p) ?h'" if "?h \<noteq> []"
    using assms that list_update_last [of ?h "\<lambda>p. p\<lparr>timestamp := tNow\<rparr>"]
    by (simp add: update_def Let_def)
  have keep: "filter (\<lambda>p. tCleanup - windowMs \<le> timestamp p) ?h' = ?h'"
    if "\<forall>p \<in> set (butlast ?h). tCleanup - windowMs \<le> timestamp p"
      and "tCleanup - windowMs \<le> tNow"
    using that by simp
  have amounts: "map amount ?h' = map amount ?h" "length ?h' = length ?h" if "?h \<noteq> []"
  proof -
    have "map amount ?h' = map amount (butlast ?h @ [last ?h])" by simp
    then show "map amount ?h' = map amount ?h" using that by simp
    then show "length ?h' = length ?h" by (metis length_map)
  qed
  have empty: "history (update tNow tCleanup c s) =
      filter (\<lambda>p. tCleanup - windowMs \<le> timestamp p) [\<lparr>timestamp = tNow, amount = 0\<rparr>]"
    if "?h = []"
    using assms that by (simp add: update_def Let_def)
  have fields: "lastAmount (update tNow tCleanup c s) = lastAmount s"
    "initialAmount (update tNow tCleanup c s) = initialAmount s"
    "startTime (update tNow tCleanup c s) = startTime s"
    "initialized (update tNow tCleanup c s)"
    using assms by (simp_all add: update_def Let_def)
  show ?thesis
    using nonempty keep amounts empty fields by simp
qed

theorem update_zero_difference_witness:
  "history (update 2000 2001 100 (update 1000 1001 100 (RewardHistory_new 0)))
     = [\<lparr>timestamp = 2000, amount = 0\<rparr>]"
proof -
  let ?s = "update 1000 1001 100 (RewardHistory_new 0)"
  have s: "?s = \<lparr>history = [\<lparr>timestamp = 1000, amount = 0\<rparr>], lastAmount = 100,
      initialAmount = Some 100, startTime = 1000, initialized = True\<rparr>"
    by (simp add: update_def RewardHistory_new_def)
  have "initialized ?s" "lastAmount ?s = 100" "history ?s \<noteq> []"
    "\<forall>p \<in> set (butlast (history ?s)). 2001 - windowMs \<le> timestamp p"
    "2001 - windowMs \<le> 2000"
    unfolding s by (simp_all add: windowMs_def)
  then show ?thesis
    using update_zero_difference [of ?s 100 2000 2001] unfolding s
    by (simp add: windowMs_def)
qed

section \<open>Session statistics\<close>

text \<open>
  C8. \<open>getStats\<close> reports as \<open>sessionPerMinute\<close> the display value of the integer
  quotient (rounded down) of the session total in wei times 60000 by the milliseconds
  since the start of the session when these are positive, and 0 otherwise. The session
  total in wei is the last amount minus the initial amount, not below 0, and 0 when no
  initial amount is set; its display value is the reported \<open>sessionTotal\<close>.
\<close>

theorem getStats_sessionPerMinute:
  "sessionPerMinute (fst (getStats tCleanup tInit tNow s)) =
     (if tNow - startTime s > 0
      then formatEther
             (((case initialAmount s of None \<Rightarrow> 0 | Some i \<Rightarrow> max 0 (lastAmount s - i)) * 60000)
                div (tNow - startTime s))
      else 0)
   \<and> sessionTotal (fst (getStats tCleanup tInit tNow s)) =
       formatEther (case initialAmount s of None \<Rightarrow> 0 | Some i \<Rightarrow> max 0 (lastAmount s - i))"
proof -
  let ?total = "case initialAmount s of None \<Rightarrow> 0 | Some i \<Rightarrow> max 0 (lastAmount s - i)"
  have nonneg: "0 \<le> ?total * 60000"
    by (simp split: option.splits)
  have "sessionPerMinute (fst (getStats tCleanup tInit tNow s)) =
      formatEther (if tNow - startTime s > 0
        then BigNumber_div (?total * 60000) (tNow - startTime s) else 0)"
    by (simp add: getStats_def Let_def max_def split: option.splits)
  then show ?thesis
    using nonneg by (simp add: BigNumber_div_nonneg getStats_sessionTotal)
qed

theorem getStats_sessionPerMinute_witness:
  "sessionPerMinute (fst (getStats 61000 61000 61000
      (update 31000 31000 7000000000000000000 (update 1000 1000 1000000000000000000 (RewardHistory_new 0)))))
     = 6 \<and>
   sessionPerMinute (fst (getStats 1000 1000 1000 (update 1000 1000 5 (RewardHistory_new 0))))
     = 0"
proof -
  let ?s = "update 31000 31000 7000000000000000000 (update 1000 1000 1000000000000000000 (RewardHistory_new 0))"
  have s: "initialAmount ?s = Some 1000000000000000000" "lastAmount ?s = 7000000000000000000" "startTime ?s = 1000"
    by (simp_all add: update_def RewardHistory_new_def Let_def cleanup_def)
  let ?r = "update 1000 1000 5 (RewardHistory_new 0)"
  have r: "startTime ?r = 1000"
    by (simp add: update_def RewardHistory_new_def)
  show ?thesis
    using getStats_sessionPerMinute [of 61000 61000 61000 ?s]
      getStats_sessionPerMinute [of 1000 1000 1000 ?r]
    by (simp add: s r formatEther_def)
qed

text \<open>
  C9. \<open>getStats\<close> reports as \<open>sessionDurationMinutes\<close> the larger of 1 and the minutes
  from the start of the session to the clock value \<open>now\<close> of the call. Right after the
  first \<open>update\<close> of an accumulator that is not initialized, while no more than a minute
  has passed, it is 1.
\<close>

theorem getStats_sessionDurationMinutes:
  "sessionDurationMinutes (fst (getStats tCleanup tInit tNow s)) =
     max 1 (of_int (tNow - startTime s) / 60000)
   \<and> (\<not> initialized s \<and> tNow - t \<le> 60000 \<longrightarrow>
        sessionDurationMinutes (fst (getStats tCleanup tInit tNow (update t t' c s))) = 1)"
proof -
  have a: "sessionDurationMinutes (fst (getStats u1 u2 u3 r)) =
      max 1 (of_int (u3 - startTime r) / 60000)" for u1 u2 u3 r
    by (simp add: getStats_def Let_def)
  have b: "max 1 (of_int (tNow - t) / 60000) = (1 :: rat)" if "tNow - t \<le> 60000"
  proof -
    have "(of_int (tNow - t) :: rat) \<le> of_int 60000"
      using that by (simp only: of_int_le_iff)
    then have "(of_int (tNow - t) :: rat) / 60000 \<le> 1" by simp
    then show ?thesis by (simp add: max_def)
  qed
  have c: "startTime (update t t' c s) = t" if "\<not> initialized s"
    using that by (simp add: update_def)
  show ?thesis
    using a b c by simp
qed

theorem getStats_sessionDurationMinutes_witness:
  "sessionDurationMinutes (fst (getStats 1003 1004 1005 (update 1000 1001 7 (RewardHistory_new 0))))
     = 1 \<and>
   sessionDurationMinutes (fst (getStats 181000 181000 181000 (update 1000 1001 7 (RewardHistory_new 0))))
     = 3"
proof -
  let ?s = "update 1000 1001 7 (RewardHistory_new 0)"
  have s: "startTime ?s = 1000"
    by (simp add: update_def RewardHistory_new_def)
  have n: "\<not> initialized (RewardHistory_new 0) \<and> (1005 :: int) - 1000 \<le> 60000"
    by (simp add: RewardHistory_new_def)
  show ?thesis
    using getStats_sessionDurationMinutes [of 1003 1004 1005 "RewardHistory_new 0" 1000 1001 7]
      getStats_sessionDurationMinutes [of 181000 181000 181000 ?s 0 0 0] n
    by (simp add: s)
qed


section \<open>The rate of the window\<close>

text \<open>
  C2. \<open>getStats\<close> reports as \<open>currentRate.perMinute\<close> the display value of the integer
  quotient by 5 of the sum of the amounts of the samples it keeps in the history and
  that are inside the window at its clock value \<open>now\<close>; the divisor is the constant 5,
  whatever time the samples span. When the clock does not advance during the call these
  are all the samples kept. \<open>perHour\<close> is \<open>perMinute\<close> times 60 and \<open>perDay\<close> is
  \<open>perHour\<close> times 24.
\<close>

theorem getStats_currentRate:
  "perMinute (currentRate (fst (getStats tCleanup tInit tNow s))) =
     formatEther (BigNumber_div
       (sum_list (map amount
          (filter (\<lambda>p. tNow - windowMs \<le> timestamp p)
             (history (snd (getStats tCleanup tInit tNow s)))))) 5)
   \<and> (tNow \<le> tCleanup \<and> tNow \<le> tInit \<longrightarrow>
        perMinute (currentRate (fst (getStats tCleanup tInit tNow s))) =
          formatEther (BigNumber_div
            (sum_list (map amount (history (snd (getStats tCleanup tInit tNow s))))) 5))
   \<and> perHour (currentRate (fst (getStats tCleanup tInit tNow s))) =
        perMinute (currentRate (fst (getStats tCleanup tInit tNow s))) * 60
   \<and> perDay (currentRate (fst (getStats tCleanup tInit tNow s))) =
        perHour (currentRate (fst (getStats tCleanup tInit tNow s))) * 24"
proof -
  let ?h = "history (snd (getStats tCleanup tInit tNow s))"
  have a: "perMinute (currentRate (fst (getStats tCleanup tInit tNow s))) =
     formatEther (BigNumber_div
       (sum_list (map amount (filter (\<lambda>p. tNow - windowMs \<le> timestamp p) ?h))) 5)"
    by (simp add: getStats_def Let_def foldl_amount)
  have b: "filter (\<lambda>p. tNow - windowMs \<le> timestamp p) ?h = ?h"
    if "tNow \<le> tCleanup" "tNow \<le> tInit"
  proof (cases "initialized s")
    case True
    then show ?thesis
      using that by (simp add: getStats_snd filter_window_weaker del: filter_filter)
  next
    case False
    then show ?thesis
      using that
      by (simp add: getStats_snd initialize_def initialize_loop_4 filter_window_weaker
          windowMs_def del: filter_filter)
  qed
  have c: "perHour (currentRate (fst (getStats tCleanup tInit tNow s))) =
        perMinute (currentRate (fst (getStats tCleanup tInit tNow s))) * 60"
    by (simp add: getStats_def Let_def formatEther_mult)
  have d: "perDay (currentRate (fst (getStats tCleanup tInit tNow s))) =
        perHour (currentRate (fst (getStats tCleanup tInit tNow s))) * 24"
    by (simp add: getStats_def Let_def formatEther_mult)
  show ?thesis
    using a b c d by simp
qed

theorem getStats_currentRate_witness:
  "perMinute (currentRate (fst (getStats 61000 61000 61000
      (update 31000 31000 7000000000000000000
        (update 1000 1000 1000000000000000000 (RewardHistory_new 0)))))) = 6 / 5"
proof -
  let ?s = "update 31000 31000 7000000000000000000
        (update 1000 1000 1000000000000000000 (RewardHistory_new 0))"
  have s: "?s = \<lparr>history = [\<lparr>timestamp = 1000, amount = 0\<rparr>,
        \<lparr>timestamp = 31000, amount = 6000000000000000000\<rparr>],
      lastAmount = 7000000000000000000, initialAmount = Some 1000000000000000000,
      startTime = 1000, initialized = True\<rparr>"
    by (simp add: update_def RewardHistory_new_def Let_def cleanup_def windowMs_def)
  have "(61000 :: int) \<le> 61000 \<and> (61000 :: int) \<le> 61000" by simp
  then show ?thesis
    using getStats_currentRate [of 61000 61000 61000 ?s] unfolding s
    by (simp add: getStats_snd windowMs_def BigNumber_div_def formatEther_def)
qed

section \<open>Reading twice\<close>

text \<open>
  C10, as the code has it. Two calls of \<open>getStats\<close> with no call between them report the
  same \<open>sessionTotal\<close>. They report the same statistics in every field when the second
  call reads the same clock value \<open>now\<close> as the first (and its clock did not run ahead
  of that value before). The duration and the rate of the session, and the samples
  inside the window, depend on the time of the call.
\<close>

theorem getStats_twice:
  "sessionTotal (fst (getStats u1 u2 u3 (snd (getStats t1 t2 t3 s)))) =
     sessionTotal (fst (getStats t1 t2 t3 s))
   \<and> (u3 = t3 \<and> u1 \<le> t3 \<longrightarrow>
        fst (getStats u1 u2 u3 (snd (getStats t1 t2 t3 s))) = fst (getStats t1 t2 t3 s))"
proof -
  let ?s1 = "initialize t2 (cleanup t1 s)"
  have total: "sessionTotal (fst (getStats u1 u2 u3 (snd (getStats t1 t2 t3 s)))) =
     sessionTotal (fst (getStats t1 t2 t3 s))"
    by (simp add: getStats_sessionTotal split: option.splits)
  have same: "fst (getStats u1 u2 t3 ?s1) = fst (getStats t1 t2 t3 s)" if "u1 \<le> t3"
    using that
    by (simp add: getStats_def [of _ _ t3] Let_def filter_window_twice
        del: filter_filter split: option.splits)
  show ?thesis
    using total same by (simp add: getStats_snd)
qed

theorem getStats_twice_witness:
  "fst (getStats 120000 120001 120002 (snd (getStats 120000 120001 120002
      (update 60000 60000 3000000000000000000
        (update 0 0 1000000000000000000 (RewardHistory_new 0))))))
   = fst (getStats 120000 120001 120002
      (update 60000 60000 3000000000000000000
        (update 0 0 1000000000000000000 (RewardHistory_new 0))))"
  using getStats_twice [of 120000 120001 120002 120000 120001 120002
      "update 60000 60000 3000000000000000000
        (update 0 0 1000000000000000000 (RewardHistory_new 0))"]
  by simp

text \<open>
  C10 as stated fails: after \<open>update\<close> with 1 token at time 0 and with 3 tokens one
  minute later, \<open>getStats\<close> at two minutes and \<open>getStats\<close> again at seven minutes differ in
  the duration of the session, in the rate of the session and in the rate of the window.
\<close>

theorem getStats_twice_counterexample:
  "fst (getStats 420000 420000 420000
      (snd (getStats 120000 120000 120000
        (update 60000 60000 3000000000000000000
          (update 0 0 1000000000000000000 (RewardHistory_new 0))))))
     \<noteq> fst (getStats 120000 120000 120000
        (update 60000 60000 3000000000000000000
          (update 0 0 1000000000000000000 (RewardHistory_new 0))))
   \<and> sessionDurationMinutes (fst (getStats 120000 120000 120000
      (update 60000 60000 3000000000000000000
        (update 0 0 1000000000000000000 (RewardHistory_new 0))))) = 2
   \<and> sessionDurationMinutes (fst (getStats 420000 420000 420000
      (snd (getStats 120000 120000 120000
        (update 60000 60000 3000000000000000000
          (update 0 0 1000000000000000000 (RewardHistory_new 0))))))) = 7
   \<and> sessionPerMinute (fst (getStats 120000 120000 120000
      (update 60000 60000 3000000000000000000
        (update 0 0 1000000000000000000 (RewardHistory_new 0))))) = 1
   \<and> sessionPerMinute (fst (getStats 420000 420000 420000
      (snd (getStats 120000 120000 120000
        (update 60000 60000 3000000000000000000
          (update 0 0 1000000000000000000 (RewardHistory_new 0)))))))
       = 285714285714285714 / 1000000000000000000
   \<and> perMinute (currentRate (fst (getStats 120000 120000 120000
      (update 60000 60000 3000000000000000000
        (update 0 0 1000000000000000000 (RewardHistory_new 0)))))) = 2 / 5
   \<and> perMinute (currentRate (fst (getStats 420000 420000 420000
      (snd (getStats 120000 120000 120000
        (update 60000 60000 3000000000000000000
          (update 0 0 1000000000000000000 (RewardHistory_new 0)))))))) = 0"
proof -
  let ?s = "update 60000 60000 3000000000000000000
        (update 0 0 1000000000000000000 (RewardHistory_new 0))"
  have s: "?s = \<lparr>history = [\<lparr>timestamp = 0, amount = 0\<rparr>,
        \<lparr>timestamp = 60000, amount = 2000000000000000000\<rparr>],
      lastAmount = 3000000000000000000, initialAmount = Some 1000000000000000000,
      startTime = 0, initialized = True\<rparr>"
    by (simp add: update_def RewardHistory_new_def Let_def cleanup_def windowMs_def)
  show ?thesis
    unfolding s
    by (simp add: getStats_def Let_def cleanup_def initialize_def windowMs_def
        BigNumber_div_def formatEther_def)
qed

section \<open>Accumulation\<close>

text \<open>
  C1. Let a sequence of calls of \<open>update\<close>, at least one, with amounts that do not
  decrease, run on an accumulator that was just constructed or just reset. Then a
  following \<open>getStats\<close> reports as \<open>sessionTotal\<close> the display value of the last amount
  minus the first one (which is not negative), whatever clock values the calls read.
\<close>

theorem monotonic_accumulation:
  assumes "\<forall>c \<in> set cs. isUpdate c" and "cs \<noteq> []" and "sorted (cumulatives cs)"
  shows "sessionTotal (fst (getStats t1 t2 t3 (run cs (RewardHistory_new t0)))) =
           formatEther (last (cumulatives cs) - hd (cumulatives cs))
       \<and> sessionTotal (fst (getStats t1 t2 t3 (run cs (reset t s)))) =
           formatEther (last (cumulatives cs) - hd (cumulatives cs))
       \<and> 0 \<le> last (cumulatives cs) - hd (cumulatives cs)"
proof -
  obtain c cs' where cs: "cs = c # cs'"
    using assms(2) by (cases cs) auto
  obtain tNow tCleanup c0 where c: "c = Update tNow tCleanup c0"
    using assms(1) cs by (cases c) auto
  have total: "sessionTotal (fst (getStats t1 t2 t3 (run cs r))) =
           formatEther (last (cumulatives cs) - hd (cumulatives cs))
         \<and> 0 \<le> last (cumulatives cs) - hd (cumulatives cs)" if "\<not> initialized r" for r
  proof -
    let ?r = "update tNow tCleanup c0 r"
    have r: "initialized ?r" "initialAmount ?r = Some c0" "lastAmount ?r = c0"
      using that by (simp_all add: update_def)
    have "\<forall>c \<in> set cs'. isUpdate c \<or> isGetStats c"
      using assms(1) cs by simp
    moreover have sorted: "sorted (lastAmount ?r # cumulatives cs')"
      using assms(3) cs c by simp
    ultimately have "initialAmount (run cs' ?r) = Some c0"
      "lastAmount (run cs' ?r) = last (c0 # cumulatives cs')"
      using run_nondecreasing [of ?r cs'] r by simp_all
    moreover have "c0 \<le> last (c0 # cumulatives cs')"
      using sorted by (cases "cumulatives cs'" rule: rev_cases) auto
    ultimately show ?thesis
      unfolding getStats_sessionTotal by (simp add: cs c)
  qed
  show ?thesis
    using total [of "RewardHistory_new t0"] total [of "reset t s"]
    by (simp add: RewardHistory_new_def reset_def)
qed

theorem monotonic_accumulation_witness:
  "sessionTotal (fst (getStats 9000 9001 9002
      (run [Update 1000 1001 100, Update 2000 2001 100, Update 400000 400000 250]
        (RewardHistory_new 0)))) = formatEther 150"
  using monotonic_accumulation
    [of "[Update 1000 1001 100, Update 2000 2001 100, Update 400000 400000 250]"
      9000 9001 9002 0]
  by simp


section \<open>Pruning of the window\<close>

text \<open>
  C6. Let calls run on a new accumulator under a clock that never runs backwards, and
  let the last call be \<open>update\<close> or \<open>getStats\<close>. After it the samples of the history are
  in ascending order of their times, and none is older than the window before the time
  at which that call was made (its first clock value). Moreover, in every state a sample
  older than the window before the clock value \<open>now\<close> of \<open>getStats\<close> adds nothing to the
  statistics: without it \<open>getStats\<close> reports the same.
\<close>

theorem window_pruning:
  assumes "sorted (t0 # concat (map clock (cs @ [c])))" and "isUpdate c \<or> isGetStats c"
  shows "sorted (map timestamp (history (run (cs @ [c]) (RewardHistory_new t0))))
       \<and> (\<forall>p \<in> set (history (run (cs @ [c]) (RewardHistory_new t0))).
             hd (clock c) - windowMs \<le> timestamp p)
       \<and> (\<forall>p \<in> set (history s). timestamp p < tNow - windowMs \<longrightarrow>
             fst (getStats tCleanup tInit tNow (s\<lparr>history := remove1 p (history s)\<rparr>))
               = fst (getStats tCleanup tInit tNow s))"
proof -
  let ?t = "last (t0 # concat (map clock cs))"
  let ?s = "run cs (RewardHistory_new t0)"
  have "sorted (t0 # concat (map clock cs))"
    using assms(1) by (simp add: sorted_append)
  with wellformed_new have before: "wellformed ?t ?s"
    by (rule wellformed_run)
  have after: "wellformed (last (t0 # concat (map clock (cs @ [c])))) (run (cs @ [c]) (RewardHistory_new t0))"
    using wellformed_new assms(1) by (rule wellformed_run)
  have ascending: "sorted (map timestamp (history (run (cs @ [c]) (RewardHistory_new t0))))"
    using after by (simp add: wellformed_def)
  have pruned: "\<forall>p \<in> set (history (run (cs @ [c]) (RewardHistory_new t0))).
             hd (clock c) - windowMs \<le> timestamp p"
  proof (cases c)
    case (Update tN tC v)
    then have "tN \<le> tC"
      using assms(1) by (simp add: sorted_append)
    then show ?thesis
      using before Update update_pruned [of ?t ?s tN tC v] by (simp add: run_append)
  next
    case (GetStats t1 t2 t3)
    then have "t1 \<le> t2"
      using assms(1) by (simp add: sorted_append)
    then show ?thesis
      using before GetStats getStats_pruned [of ?t ?s t1 t2 t3] by (simp add: run_append)
  next
    case (Reset t)
    then show ?thesis using assms(2) by simp
  next
    case (SetInitialAmount t v)
    then show ?thesis using assms(2) by simp
  qed
  have stale: "fst (getStats tCleanup tInit tNow (s\<lparr>history := remove1 p (history s)\<rparr>))
               = fst (getStats tCleanup tInit tNow s)"
    if "timestamp p < tNow - windowMs" for p
  proof -
    let ?P = "\<lambda>q. tCleanup - windowMs \<le> timestamp q \<and> tNow - windowMs \<le> timestamp q"
    have "\<not> ?P p"
      using that by simp
    then have "filter ?P (remove1 p (history s)) = filter ?P (history s)"
      by (rule filter_remove1_stale)
    then show ?thesis
      by (simp add: getStats_def Let_def initialize_def initialize_loop_4 split: option.splits)
  qed
  show ?thesis
    using ascending pruned stale by simp
qed

theorem window_pruning_witness:
  "sorted (map timestamp (history
      (run ([Update 0 0 100, Update 60000 60001 200] @ [GetStats 330000 330000 330001])
        (RewardHistory_new 0))))
   \<and> list_all (\<lambda>p. 330000 - windowMs \<le> timestamp p)
       (history
         (run ([Update 0 0 100, Update 60000 60001 200] @ [GetStats 330000 330000 330001])
           (RewardHistory_new 0)))
   \<and> fst (getStats 290000 290000 400000
        \<lparr>history = [\<lparr>timestamp = 200000, amount = 5\<rparr>],
         lastAmount = 12, initialAmount = Some 0, startTime = 0, initialized = True\<rparr>)
     = fst (getStats 290000 290000 400000
        \<lparr>history = [\<lparr>timestamp = 0, amount = 7\<rparr>, \<lparr>timestamp = 200000, amount = 5\<rparr>],
         lastAmount = 12, initialAmount = Some 0, startTime = 0, initialized = True\<rparr>)"
proof -
  let ?cs = "[Update 0 0 100, Update 60000 60001 200]"
  let ?c = "GetStats 330000 330000 330001"
  let ?p = "\<lparr>timestamp = 0, amount = 7\<rparr>"
  let ?s = "\<lparr>history = [?p, \<lparr>timestamp = 200000, amount = 5\<rparr>],
         lastAmount = 12, initialAmount = Some 0, startTime = 0, initialized = True\<rparr>"
  have clock: "sorted (0 # concat (map clock (?cs @ [?c])))" and last: "isUpdate ?c \<or> isGetStats ?c"
    by simp_all
  have stale: "?p \<in> set (history ?s)" "timestamp ?p < 400000 - windowMs"
    by (simp_all add: windowMs_def)
  have removed: "?s\<lparr>history := remove1 ?p (history ?s)\<rparr> =
      \<lparr>history = [\<lparr>timestamp = 200000, amount = 5\<rparr>],
         lastAmount = 12, initialAmount = Some 0, startTime = 0, initialized = True\<rparr>"
    by simp
  show ?thesis
    using window_pruning [OF clock last, where s = ?s and tNow = 400000
        and tCleanup = 290000 and tInit = 290000] stale
    unfolding removed [symmetric] list_all_iff by (simp del: remove1.simps)
qed

section \<open>Statistics read before the first update\<close>

text \<open>
  C5. \<open>getStats\<close> on a new accumulator seeds five samples of 0.0001 token, one a minute
  up to the clock value of \<open>initialize\<close>, and marks the accumulator initialized; the
  initial amount stays absent and the last amount stays 0. A following \<open>update c\<close> with
  \<open>c > 0\<close> is therefore not a first call: it appends \<open>c\<close> itself as the amount of a new
  sample and prunes. Whatever calls of \<open>update\<close> with amounts that do not decrease from 0,
  mixed with calls of \<open>getStats\<close>, follow: the initial amount stays absent and \<open>getStats\<close>
  reports the session total 0.
\<close>

theorem getStats_before_first_update:
  "snd (getStats t1 t2 t3 (RewardHistory_new t0)) =
     \<lparr>history =
        [\<lparr>timestamp = t2 - 240000, amount = 100000000000000\<rparr>,
         \<lparr>timestamp = t2 - 180000, amount = 100000000000000\<rparr>,
         \<lparr>timestamp = t2 - 120000, amount = 100000000000000\<rparr>,
         \<lparr>timestamp = t2 - 60000, amount = 100000000000000\<rparr>,
         \<lparr>timestamp = t2, amount = 100000000000000\<rparr>],
      lastAmount = 0, initialAmount = None, startTime = t0, initialized = True\<rparr>
   \<and> (0 < c \<longrightarrow>
        update tNow tCleanup c (snd (getStats t1 t2 t3 (RewardHistory_new t0))) =
          cleanup tCleanup
            ((snd (getStats t1 t2 t3 (RewardHistory_new t0)))
               \<lparr>history := history (snd (getStats t1 t2 t3 (RewardHistory_new t0)))
                   @ [\<lparr>timestamp = tNow, amount = c\<rparr>],
                lastAmount := c\<rparr>))
   \<and> ((\<forall>c \<in> set cs. isUpdate c \<or> isGetStats c) \<and> sorted (0 # cumulatives cs) \<longrightarrow>
        initialAmount (run cs (snd (getStats t1 t2 t3 (RewardHistory_new t0)))) = None
        \<and> sessionTotal (fst (getStats u1 u2 u3
             (run cs (snd (getStats t1 t2 t3 (RewardHistory_new t0)))))) = 0)"
proof -
  let ?s = "snd (getStats t1 t2 t3 (RewardHistory_new t0))"
  have seeded: "?s =
     \<lparr>history =
        [\<lparr>timestamp = t2 - 240000, amount = 100000000000000\<rparr>,
         \<lparr>timestamp = t2 - 180000, amount = 100000000000000\<rparr>,
         \<lparr>timestamp = t2 - 120000, amount = 100000000000000\<rparr>,
         \<lparr>timestamp = t2 - 60000, amount = 100000000000000\<rparr>,
         \<lparr>timestamp = t2, amount = 100000000000000\<rparr>],
      lastAmount = 0, initialAmount = None, startTime = t0, initialized = True\<rparr>"
    by (simp add: getStats_snd RewardHistory_new_def cleanup_def initialize_def
        initialize_loop_4 toWeiString_0_0001_def)
  have fields: "initialized ?s" "lastAmount ?s = 0" "initialAmount ?s = None"
    by (simp_all add: RewardHistory_new_def)
  have appended: "update tNow tCleanup c ?s =
      cleanup tCleanup (?s\<lparr>history := history ?s @ [\<lparr>timestamp = tNow, amount = c\<rparr>],
        lastAmount := c\<rparr>)" if "0 < c"
    using that fields by (simp add: update_def [of _ _ _ ?s] Let_def)
  have later: "initialAmount (run cs ?s) = None
      \<and> sessionTotal (fst (getStats u1 u2 u3 (run cs ?s))) = 0"
    if "\<forall>c \<in> set cs. isUpdate c \<or> isGetStats c" "sorted (0 # cumulatives cs)"
  proof -
    have "initialAmount (run cs ?s) = None"
      using that fields run_nondecreasing [of ?s cs] by simp
    then show ?thesis
      unfolding getStats_sessionTotal by simp
  qed
  show ?thesis
    using seeded appended later by blast
qed

theorem getStats_before_first_update_witness:
  "history (update 30000 30001 5 (snd (getStats 1000 1001 1002 (RewardHistory_new 0)))) =
     [\<lparr>timestamp = - 238999, amount = 100000000000000\<rparr>,
      \<lparr>timestamp = - 178999, amount = 100000000000000\<rparr>,
      \<lparr>timestamp = - 118999, amount = 100000000000000\<rparr>,
      \<lparr>timestamp = - 58999, amount = 100000000000000\<rparr>,
      \<lparr>timestamp = 1001, amount = 100000000000000\<rparr>,
      \<lparr>timestamp = 30000, amount = 5\<rparr>]
   \<and> sessionTotal (fst (getStats 70000 70001 70002
     (run [Update 30000 30001 5, GetStats 40000 40001 40002, Update 60000 60001 9]
        (snd (getStats 1000 1001 1002 (RewardHistory_new 0)))))) = 0"
proof -
  let ?cs = "[Update 30000 30001 5, GetStats 40000 40001 40002, Update 60000 60001 9]"
  let ?s = "snd (getStats 1000 1001 1002 (RewardHistory_new 0))"
  note inst = getStats_before_first_update [of 1000 1001 1002 0 5 30000 30001 ?cs 70000 70001 70002]
  have later: "(\<forall>c \<in> set ?cs. isUpdate c \<or> isGetStats c) \<and> sorted (0 # cumulatives ?cs)"
    by simp
  have positive: "(0 :: int) < 5"
    by simp
  have seeded: "history ?s =
     [\<lparr>timestamp = - 238999, amount = 100000000000000\<rparr>,
      \<lparr>timestamp = - 178999, amount = 100000000000000\<rparr>,
      \<lparr>timestamp = - 118999, amount = 100000000000000\<rparr>,
      \<lparr>timestamp = - 58999, amount = 100000000000000\<rparr>,
      \<lparr>timestamp = 1001, amount = 100000000000000\<rparr>]"
    using inst by simp
  have upd: "update 30000 30001 5 ?s =
      cleanup 30001 (?s\<lparr>history := history ?s @ [\<lparr>timestamp = 30000, amount = 5\<rparr>],
        lastAmount := 5\<rparr>)"
    using inst positive by blast
  have first: "history (update 30000 30001 5 ?s) =
      history ?s @ [\<lparr>timestamp = 30000, amount = 5\<rparr>]"
    unfolding upd by (simp add: seeded windowMs_def)
  have "sessionTotal (fst (getStats 70000 70001 70002 (run ?cs ?s))) = 0"
    using inst later by blast
  then show ?thesis
    using first unfolding seeded by simp
qed

end
